theory Spec2Isabelle
  imports Complex_Main
begin

section \<open>The Databricks hook, embedded\<close>

text \<open>
  A shallow embedding of \<^verbatim>\<open>airflow/providers/databricks/hooks/databricks.py\<close>.
  Every Python call is a function into \<open>py_exception + 'a\<close>: \<open>Inl\<close> is the exception
  that the call raises, \<open>Inr\<close> the value it returns. Strings are \<open>string\<close>; Python's
  unbounded integers are \<open>int\<close>; the delay between retries, a float in the source, is a
  \<open>real\<close> (the values NaN and infinity are outside the model).
\<close>

subsection \<open>Values and exceptions\<close>

text \<open>The values a JSON document decodes to (\<^verbatim>\<open>response.json()\<close>) and a payload is made of.\<close>

datatype json =
  JNull
| JBool bool
| JInt int
| JStr string
| JList "json list"
| JDict "(string \<times> json) list"

text \<open>
  What the handler of \<^verbatim>\<open>_do_api_call\<close> reads of a \<^verbatim>\<open>requests.Response\<close>:
  \<^verbatim>\<open>status_code\<close> and \<^verbatim>\<open>content\<close> (the body).
\<close>

record response =
  status_code :: int
  content :: string

text \<open>
  The classes of \<^verbatim>\<open>requests.exceptions.RequestException\<close> as \<^verbatim>\<open>isinstance\<close> tells them
  apart in \<^verbatim>\<open>_retryable_error\<close>. A subclass stands under its base class
  (\<^verbatim>\<open>SSLError\<close> and \<^verbatim>\<open>ProxyError\<close> under \<open>ConnectionError\<close>, \<^verbatim>\<open>ReadTimeout\<close> under
  \<open>Timeout\<close>); \<open>ChunkedEncodingError\<close> and \<open>OtherRequestException\<close> are neither a
  \<^verbatim>\<open>ConnectionError\<close> nor a \<^verbatim>\<open>Timeout\<close>. An exception carries the attribute
  \<^verbatim>\<open>response\<close>, which is \<^verbatim>\<open>None\<close> when no response was received.
\<close>

datatype request_exception_class =
  ConnectionError
| Timeout
| HTTPError
| ChunkedEncodingError
| OtherRequestException

datatype request_exception =
  RequestException (exc_class: request_exception_class) (exc_response: "response option")

text \<open>
  The messages of the \<^verbatim>\<open>AirflowException\<close>s of this module, one constructor for each
  format string, holding the values that are formatted into it:
  \<^item> \<open>UnexpectedLifeCycleState s\<close> is
    \<^verbatim>\<open>'Unexpected life cycle state: {}: If the state has been introduced recently, ...'.format(s)\<close>;
  \<^item> \<open>UnexpectedHTTPMethod m\<close> is \<^verbatim>\<open>'Unexpected HTTP Method: ' + m\<close>;
  \<^item> \<open>ResponseAndStatusCode c n\<close> is \<^verbatim>\<open>f'Response: {c}, Status Code: {n}'\<close>;
  \<^item> \<open>RetriesExhausted n\<close> is \<^verbatim>\<open>f'API requests to Databricks failed {n} times. Giving up.'\<close>.
\<close>

datatype airflow_message =
  UnexpectedLifeCycleState string
| UnexpectedHTTPMethod string
| ResponseAndStatusCode string int
| RetriesExhausted int

text \<open>
  The exceptions that leave the functions of this module. \<open>AttributeError t a\<close> is
  the error of reading the attribute \<open>a\<close> of an object of type \<open>t\<close> that has none.
  \<open>OtherError\<close> is an exception of any other class, raised by a collaborator (the
  connection store, the transport).
\<close>

datatype py_exception =
  AirflowException airflow_message
| ValueError string
| AttributeError string string
| RequestError request_exception
| OtherError string

type_synonym 'a result = "py_exception + 'a"

subsection \<open>RunState\<close>

text \<open>
  The fields as the constructor annotates them; \<^verbatim>\<open>result_state\<close> is \<^verbatim>\<open>None\<close> when
  \<^verbatim>\<open>get_run_state\<close> finds no result state in the reply, so it is optional.
\<close>

record RunState =
  life_cycle_state :: string
  result_state :: "string option"
  state_message :: string

definition RUN_LIFE_CYCLE_STATES :: "string list" where
  "RUN_LIFE_CYCLE_STATES =
     [''PENDING'', ''RUNNING'', ''TERMINATING'', ''TERMINATED'', ''SKIPPED'', ''INTERNAL_ERROR'']"

definition RunState_init :: "string \<Rightarrow> string option \<Rightarrow> string \<Rightarrow> RunState result" where
  "RunState_init lcs rs msg =
     Inr \<lparr>life_cycle_state = lcs, result_state = rs, state_message = msg\<rparr>"

definition is_terminal :: "RunState \<Rightarrow> bool result" where
  "is_terminal self =
     (if life_cycle_state self \<notin> set RUN_LIFE_CYCLE_STATES
      then Inl (AirflowException (UnexpectedLifeCycleState (life_cycle_state self)))
      else Inr (life_cycle_state self \<in> set [''TERMINATED'', ''SKIPPED'', ''INTERNAL_ERROR'']))"

definition is_successful :: "RunState \<Rightarrow> bool result" where
  "is_successful self = Inr (result_state self = Some ''SUCCESS'')"

text \<open>
  \<^verbatim>\<open>__eq__\<close> takes any object; for one that is not a \<^verbatim>\<open>RunState\<close> it returns
  \<^verbatim>\<open>NotImplemented\<close>.
\<close>

datatype py_object = RunStateObject RunState | OtherObject

datatype eq_result = NotImplemented | Bool bool

definition RunState_eq :: "RunState \<Rightarrow> py_object \<Rightarrow> eq_result result" where
  "RunState_eq self other =
     (case other of
        OtherObject \<Rightarrow> Inr NotImplemented
      | RunStateObject other \<Rightarrow>
          Inr (Bool (life_cycle_state self = life_cycle_state other
                     \<and> result_state self = result_state other
                     \<and> state_message self = state_message other)))"

subsection \<open>The connection and the hook\<close>

text \<open>
  A connection as \<^verbatim>\<open>get_connection\<close> returns it: \<^verbatim>\<open>host\<close>, \<^verbatim>\<open>login\<close> and
  \<^verbatim>\<open>password\<close> (the last two may be \<^verbatim>\<open>None\<close>), and \<^verbatim>\<open>extra_dejson\<close>, the dictionary
  decoded from the connection's extra field. The values read from it, \<^verbatim>\<open>'token'\<close> and
  \<^verbatim>\<open>'host'\<close>, are strings, as \<^verbatim>\<open>_TokenAuth\<close> and \<^verbatim>\<open>_parse_host\<close> annotate them.
\<close>

record connection =
  host :: string
  login :: "string option"
  password :: "string option"
  extra_dejson :: "string \<rightharpoonup> string"

record DatabricksHook =
  databricks_conn_id :: string
  databricks_conn :: "connection option"
  timeout_seconds :: int
  retry_limit :: int
  retry_delay :: real

definition default_conn_name :: string where
  "default_conn_name = ''databricks_default''"

definition DatabricksHook_init :: "string \<Rightarrow> int \<Rightarrow> int \<Rightarrow> real \<Rightarrow> DatabricksHook result" where
  "DatabricksHook_init conn_id timeout limit delay =
     (if limit < 1 then Inl (ValueError ''Retry limit must be greater than equal to 1'')
      else Inr \<lparr>databricks_conn_id = conn_id, databricks_conn = None,
                timeout_seconds = timeout, retry_limit = limit, retry_delay = delay\<rparr>)"

text \<open>The constructor called with no argument: every parameter takes its default.\<close>

definition DatabricksHook_default :: "DatabricksHook result" where
  "DatabricksHook_default = DatabricksHook_init default_conn_name 180 3 1"

subsection \<open>Host normalisation\<close>

text \<open>
  \<^verbatim>\<open>_parse_host\<close> calls \<^verbatim>\<open>urllib.parse.urlparse(host).hostname\<close>, which is Python's
  standard library and no code of this repository. It is modelled here after CPython's
  \<^verbatim>\<open>urlsplit\<close> and \<^verbatim>\<open>_NetlocResultMixinStr\<close> (as of Python 3.9, on which this
  provider ran), as far as the host name depends on them: an optional scheme (a non-empty
  run of scheme characters before the first colon) is split off; when the rest starts with two slashes, the network location runs up to the
  next slash, question mark or hash; unbalanced brackets in it raise \<^verbatim>\<open>ValueError\<close>;
  the host name is what follows the last at-sign, up to the port, or what stands between
  brackets, in lower case but for an IPv6 zone. Characters are ASCII: \<open>lower_char\<close>
  maps the letters A to Z and leaves every other character as it is.
\<close>

definition scheme_chars :: string where
  "scheme_chars =
     ''abcdefghijklmnopqrstuvwxyzABCDEFGHIJKLMNOPQRSTUVWXYZ0123456789+-.''"

definition lower_char :: "char \<Rightarrow> char" where
  "lower_char c =
     (case map_of (zip ''ABCDEFGHIJKLMNOPQRSTUVWXYZ'' ''abcdefghijklmnopqrstuvwxyz'') c of
        Some l \<Rightarrow> l
      | None \<Rightarrow> c)"

definition str_find :: "char \<Rightarrow> string \<Rightarrow> int" where
  \<comment> \<open>\<^verbatim>\<open>s.find(c)\<close>: the index of the first \<open>c\<close>, or -1\<close>
  "str_find c s = (if c \<in> set s then int (length (takeWhile (\<lambda>x. x \<noteq> c) s)) else - 1)"

definition strip_scheme :: "string \<Rightarrow> string" where
  \<comment> \<open>the url that \<^verbatim>\<open>urlsplit\<close> goes on with once it has looked for a scheme\<close>
  "strip_scheme url =
     (let i = str_find (CHR '':'') url
      in if i > 0 \<and> (\<forall>c \<in> set (take (nat i) url). c \<in> set scheme_chars)
         then drop (nat (i + 1)) url
         else url)"

definition splitnetloc :: "string \<Rightarrow> string" where
  \<comment> \<open>the first component of \<^verbatim>\<open>_splitnetloc(url, 2)\<close>\<close>
  "splitnetloc url = takeWhile (\<lambda>c. c \<notin> set ''/?#'') (drop 2 url)"

definition urlsplit_netloc :: "string \<Rightarrow> string result" where
  "urlsplit_netloc url0 =
     (let url = strip_scheme url0
      in if take 2 url = ''//''
         then (let netloc = splitnetloc url
               in if (CHR ''['' \<in> set netloc \<and> CHR '']'' \<notin> set netloc)
                     \<or> (CHR '']'' \<in> set netloc \<and> CHR ''['' \<notin> set netloc)
                  then Inl (ValueError ''Invalid IPv6 URL'')
                  else Inr netloc)
         else Inr [])"

definition hostinfo_hostname :: "string \<Rightarrow> string" where
  \<comment> \<open>the first component of \<^verbatim>\<open>_hostinfo\<close>\<close>
  "hostinfo_hostname netloc =
     (let hostinfo = rev (takeWhile (\<lambda>c. c \<noteq> CHR ''@'') (rev netloc))
      in if CHR ''['' \<in> set hostinfo
         then takeWhile (\<lambda>c. c \<noteq> CHR '']'')
                (drop 1 (dropWhile (\<lambda>c. c \<noteq> CHR ''['') hostinfo))
         else takeWhile (\<lambda>c. c \<noteq> CHR '':'') hostinfo)"

definition hostname :: "string \<Rightarrow> string option" where
  \<comment> \<open>the property \<^verbatim>\<open>hostname\<close> of a parse result with this network location\<close>
  "hostname netloc =
     (let h = hostinfo_hostname netloc
      in if h = [] then None
         else Some (map lower_char (takeWhile (\<lambda>c. c \<noteq> CHR ''%'') h)
                    @ dropWhile (\<lambda>c. c \<noteq> CHR ''%'') h))"

definition urlparse_hostname :: "string \<Rightarrow> string option result" where
  "urlparse_hostname url =
     (case urlsplit_netloc url of Inl e \<Rightarrow> Inl e | Inr netloc \<Rightarrow> Inr (hostname netloc))"

definition parse_host :: "string \<Rightarrow> string result" where
  "parse_host h =
     (case urlparse_hostname h of
        Inl e \<Rightarrow> Inl e
      | Inr urlparse_host \<Rightarrow>
          (case urlparse_host of
             Some x \<Rightarrow> if x \<noteq> [] then Inr x else Inr h
           | None \<Rightarrow> Inr h))"

subsection \<open>Authentication\<close>

text \<open>
  The value passed as \<^verbatim>\<open>auth=\<close>: a \<^verbatim>\<open>_TokenAuth(token)\<close> object or the tuple
  \<^verbatim>\<open>(login, password)\<close>, which \<^verbatim>\<open>requests\<close> takes as HTTP Basic credentials.
\<close>

datatype auth = TokenAuth string | BasicAuth "string option" "string option"

record prepared_request =
  prepared_headers :: "string \<rightharpoonup> string"

definition TokenAuth_call :: "string \<Rightarrow> prepared_request \<Rightarrow> prepared_request result" where
  \<comment> \<open>\<^verbatim>\<open>_TokenAuth.__call__\<close>, for the object holding \<open>token\<close>\<close>
  "TokenAuth_call token r =
     Inr (r\<lparr>prepared_headers := (prepared_headers r)(''Authorization'' \<mapsto> ''Bearer '' @ token)\<rparr>)"

subsection \<open>Requests, replies and effects\<close>

text \<open>
  One call of \<^verbatim>\<open>request_func\<close>: the function chosen (\<^verbatim>\<open>requests.get\<close>,
  \<^verbatim>\<open>requests.post\<close> or \<^verbatim>\<open>requests.patch\<close>, named by its method) and its arguments.
\<close>

record request =
  request_func :: string
  url :: string
  json :: "json option"
  params :: "json option"
  auth :: auth
  headers :: "(string \<times> string) list"
  timeout :: int

text \<open>
  What one attempt meets: \<^verbatim>\<open>request_func\<close> raises, or it returns a response, together
  with what \<^verbatim>\<open>response.json()\<close> does on it (the decoded body, or an exception).
\<close>

datatype attempt = Raises py_exception | Responds response "json result"

text \<open>
  The collaborators of the hook: the version of the package (\<^verbatim>\<open>airflow.__version__\<close>),
  the connection store behind \<^verbatim>\<open>BaseHook.get_connection\<close>, and the transport, which
  tells for a request and the number of the attempt what that attempt meets. Within one
  call the attempts are numbered 1, 2, ... by \<^verbatim>\<open>attempt_num\<close>, so a transport whose
  answers change over time is a function of that number.
\<close>

record env =
  airflow_version :: string
  get_connection :: "string \<Rightarrow> connection result"
  transport :: "request \<Rightarrow> int \<Rightarrow> attempt"

text \<open>
  The effects of a call, in the order in which they happen: a line at level info in the
  log, a call of \<^verbatim>\<open>request_func\<close> with its arguments (one attempt, whatever it meets),
  a call of \<^verbatim>\<open>_log_request_error\<close> with the attempt number and the error, and a
  \<^verbatim>\<open>sleep\<close> that has returned.
\<close>

datatype event =
  LogInfo string
| Sent request
| LogError int request_exception
| Slept real

fun sent :: "event \<Rightarrow> request list" where
  "sent (Sent r) = [r]"
| "sent _ = []"

fun slept :: "event \<Rightarrow> real list" where
  "slept (Slept d) = [d]"
| "slept _ = []"

definition sent_requests :: "event list \<Rightarrow> request list" where
  "sent_requests tr = concat (map sent tr)"

definition sleeps :: "event list \<Rightarrow> real list" where
  "sleeps tr = concat (map slept tr)"

definition USER_AGENT_HEADER :: "string \<Rightarrow> (string \<times> string) list" where
  "USER_AGENT_HEADER version = [(''user-agent'', ''airflow-'' @ version)]"

text \<open>
  Two library calls, as their documentation has them: \<^verbatim>\<open>Response.raise_for_status\<close>
  raises an \<^verbatim>\<open>HTTPError\<close> that carries the response when the status is 4xx or 5xx, and
  \<^verbatim>\<open>time.sleep\<close> raises \<^verbatim>\<open>ValueError\<close> on a negative length.
\<close>

definition raise_for_status :: "response \<Rightarrow> unit result" where
  "raise_for_status r =
     (if 400 \<le> status_code r \<and> status_code r < 600
      then Inl (RequestError (RequestException HTTPError (Some r)))
      else Inr ())"

definition sleep :: "real \<Rightarrow> unit result" where
  "sleep secs =
     (if secs < 0 then Inl (ValueError ''sleep length must be non-negative'') else Inr ())"

subsection \<open>The API call\<close>

definition retryable_error :: "request_exception \<Rightarrow> bool" where
  "retryable_error exception =
     (exc_class exception \<in> {ConnectionError, Timeout}
      \<or> (case exc_response exception of
            None \<Rightarrow> False
          | Some r \<Rightarrow> status_code r \<ge> 500))"

text \<open>The body of the \<^verbatim>\<open>try\<close> statement: the request, the status check, the decoding.\<close>

definition attempt_once :: "attempt \<Rightarrow> json result" where
  "attempt_once a =
     (case a of
        Raises e \<Rightarrow> Inl e
      | Responds r body \<Rightarrow>
          (case raise_for_status r of Inl e \<Rightarrow> Inl e | Inr _ \<Rightarrow> body))"

text \<open>
  The handler of a \<^verbatim>\<open>RequestException\<close> that is not retryable formats
  \<^verbatim>\<open>e.response.content\<close> and \<^verbatim>\<open>e.response.status_code\<close>; where \<^verbatim>\<open>e.response\<close> is
  \<^verbatim>\<open>None\<close> the attribute access raises \<^verbatim>\<open>AttributeError\<close>.
\<close>

definition fatal_error :: "request_exception \<Rightarrow> py_exception" where
  "fatal_error e =
     (case exc_response e of
        None \<Rightarrow> AttributeError ''NoneType'' ''content''
      | Some r \<Rightarrow> AirflowException (ResponseAndStatusCode (content r) (status_code r)))"

text \<open>
  The \<^verbatim>\<open>while True\<close> loop. It need not end (a hook whose \<^verbatim>\<open>retry_limit\<close> is below the
  attempt number never meets \<^verbatim>\<open>attempt_num == self.retry_limit\<close>), so its result is
  optional: \<open>None\<close> is a loop that runs forever.
\<close>

partial_function (option) request_loop ::
  "DatabricksHook \<Rightarrow> (int \<Rightarrow> attempt) \<Rightarrow> request \<Rightarrow> int \<Rightarrow> event list
     \<Rightarrow> (json result \<times> event list) option" where
  "request_loop self reply req attempt_num tr =
     (case attempt_once (reply attempt_num) of
        Inr v \<Rightarrow> Some (Inr v, tr @ [Sent req])
      | Inl x \<Rightarrow>
          (case x of
             RequestError e \<Rightarrow>
               if \<not> retryable_error e then Some (Inl (fatal_error e), tr @ [Sent req])
               else if attempt_num = retry_limit self
               then Some (Inl (AirflowException (RetriesExhausted (retry_limit self))),
                          tr @ [Sent req, LogError attempt_num e])
               else (case sleep (retry_delay self) of
                       Inl y \<Rightarrow> Some (Inl y, tr @ [Sent req, LogError attempt_num e])
                     | Inr _ \<Rightarrow>
                         request_loop self reply req (attempt_num + 1)
                           (tr @ [Sent req, LogError attempt_num e, Slept (retry_delay self)]))
           | _ \<Rightarrow> Some (Inl x, tr @ [Sent req])))"

text \<open>The choice of the credentials and of the host, with what it logs.\<close>

definition select_auth :: "connection \<Rightarrow> (auth \<times> string) result \<times> event list" where
  "select_auth conn =
     (case extra_dejson conn ''token'' of
        Some token \<Rightarrow>
          (case extra_dejson conn ''host'' of
             Some h \<Rightarrow>
               (case parse_host h of
                  Inl e \<Rightarrow> (Inl e, [LogInfo ''Using token auth. ''])
                | Inr h' \<Rightarrow> (Inr (TokenAuth token, h'), [LogInfo ''Using token auth. '']))
           | None \<Rightarrow> (Inr (TokenAuth token, host conn), [LogInfo ''Using token auth. '']))
      | None \<Rightarrow>
          (Inr (BasicAuth (login conn) (password conn), host conn),
           [LogInfo ''Using basic auth. '']))"

text \<open>The URL, the dispatch on the method, and the arguments of every attempt.\<close>

definition build_request ::
  "DatabricksHook \<Rightarrow> env \<Rightarrow> string \<Rightarrow> string \<Rightarrow> json \<Rightarrow> auth \<Rightarrow> string \<Rightarrow> request result" where
  "build_request self world method endpoint payload a h =
     (case parse_host h of
        Inl e \<Rightarrow> Inl e
      | Inr h' \<Rightarrow>
          if method \<in> set [''GET'', ''POST'', ''PATCH'']
          then Inr \<lparr>request_func = method,
                    url = ''https://'' @ h' @ ''/'' @ endpoint,
                    json = (if method \<in> set [''POST'', ''PATCH''] then Some payload else None),
                    params = (if method = ''GET'' then Some payload else None),
                    auth = a,
                    headers = USER_AGENT_HEADER (airflow_version world),
                    timeout = timeout_seconds self\<rparr>
          else Inl (AirflowException (UnexpectedHTTPMethod method)))"

text \<open>
  Everything before the loop: the connection is looked up and stored in the hook, the
  credentials and the host are chosen, the request is built.
\<close>

definition prepare_call ::
  "DatabricksHook \<Rightarrow> env \<Rightarrow> string \<times> string \<Rightarrow> json
     \<Rightarrow> request result \<times> DatabricksHook \<times> event list" where
  "prepare_call self world endpoint_info payload =
     (case endpoint_info of (method, endpoint) \<Rightarrow>
        (case get_connection world (databricks_conn_id self) of
           Inl e \<Rightarrow> (Inl e, self, [])
         | Inr conn \<Rightarrow>
             (case select_auth conn of
                (Inl e, tr) \<Rightarrow> (Inl e, self\<lparr>databricks_conn := Some conn\<rparr>, tr)
              | (Inr (a, h), tr) \<Rightarrow>
                  (build_request self world method endpoint payload a h,
                   self\<lparr>databricks_conn := Some conn\<rparr>, tr))))"

definition do_api_call ::
  "DatabricksHook \<Rightarrow> env \<Rightarrow> string \<times> string \<Rightarrow> json
     \<Rightarrow> (json result \<times> DatabricksHook \<times> event list) option" where
  "do_api_call self world endpoint_info payload =
     (case prepare_call self world endpoint_info payload of
        (Inl e, self', tr) \<Rightarrow> Some (Inl e, self', tr)
      | (Inr req, self', tr) \<Rightarrow>
          map_option (\<lambda>(res, tr'). (res, self', tr'))
            (request_loop self' (transport world req) req 1 tr))"

definition RUN_NOW_ENDPOINT :: "string \<times> string" where
  "RUN_NOW_ENDPOINT = (''POST'', ''api/2.0/jobs/run-now'')"

definition GET_RUN_ENDPOINT :: "string \<times> string" where
  "GET_RUN_ENDPOINT = (''GET'', ''api/2.0/jobs/runs/get'')"

text \<open>An attempt that fails with a retryable error: the handler goes on to the next one.\<close>

definition retryable_failure :: "attempt \<Rightarrow> bool" where
  "retryable_failure a =
     (case attempt_once a of
        Inl (RequestError e) \<Rightarrow> retryable_error e
      | _ \<Rightarrow> False)"

subsection \<open>Concrete hooks, connections and transports\<close>

definition example_hook :: "int \<Rightarrow> real \<Rightarrow> DatabricksHook" where
  "example_hook limit delay =
     \<lparr>databricks_conn_id = default_conn_name, databricks_conn = None,
      timeout_seconds = 180, retry_limit = limit, retry_delay = delay\<rparr>"

definition basic_connection :: connection where
  "basic_connection =
     \<lparr>host = ''https://xx.cloud.databricks.com'', login = Some ''user'',
      password = Some ''secret'', extra_dejson = Map.empty\<rparr>"

definition token_connection :: connection where
  "token_connection =
     \<lparr>host = ''xx.cloud.databricks.com'', login = None, password = None,
      extra_dejson = [''token'' \<mapsto> ''dapi123'']\<rparr>"

definition example_world :: "connection \<Rightarrow> (int \<Rightarrow> attempt) \<Rightarrow> env" where
  "example_world conn reply =
     \<lparr>airflow_version = ''2.0.0'',
      get_connection = (\<lambda>conn_id. if conn_id = default_conn_name then Inr conn
                                   else Inl (OtherError ''AirflowNotFoundException'')),
      transport = (\<lambda>req. reply)\<rparr>"

definition status_reply :: "int \<Rightarrow> attempt" where
  \<comment> \<open>a response with this status and a body that decodes to an empty object\<close>
  "status_reply code = Responds \<lparr>status_code = code, content = ''{}''\<rparr> (Inr (JDict []))"

definition run_id_reply :: attempt where
  "run_id_reply =
     Responds \<lparr>status_code = 200, content = ''{run_id: 1}''\<rparr> (Inr (JDict [(''run_id'', JInt 1)]))"

definition example_request :: "auth \<Rightarrow> request" where
  \<comment> \<open>the request of a call to the run-now endpoint of the example host\<close>
  "example_request a =
     \<lparr>request_func = ''POST'',
      url = ''https://xx.cloud.databricks.com/api/2.0/jobs/run-now'',
      json = Some (JDict [(''job_id'', JInt 7)]), params = None, auth = a,
      headers = [(''user-agent'', ''airflow-2.0.0'')], timeout = 180\<rparr>"

section \<open>Run states\<close>

text \<open>
  C5. For a run state whose life cycle state is one of the six recognised ones,
  \<^verbatim>\<open>is_terminal\<close> returns whether it is TERMINATED, SKIPPED or INTERNAL_ERROR; for any
  other life cycle state it raises an error and returns no value.
\<close>

theorem is_terminal_recognised_or_raises:
  "(life_cycle_state s \<in> set RUN_LIFE_CYCLE_STATES \<longrightarrow>
      is_terminal s = Inr (life_cycle_state s = ''TERMINATED''
                           \<or> life_cycle_state s = ''SKIPPED''
                           \<or> life_cycle_state s = ''INTERNAL_ERROR''))
   \<and> (life_cycle_state s \<notin> set RUN_LIFE_CYCLE_STATES \<longrightarrow>
      (\<exists>e. is_terminal s = Inl e))"
  by (simp add: is_terminal_def)

theorem is_terminal_recognised_or_raises_witness:
  "''SKIPPED'' \<in> set RUN_LIFE_CYCLE_STATES
   \<and> is_terminal \<lparr>life_cycle_state = ''SKIPPED'', result_state = None, state_message = []\<rparr>
       = Inr True
   \<and> ''RUNNING'' \<in> set RUN_LIFE_CYCLE_STATES
   \<and> is_terminal \<lparr>life_cycle_state = ''RUNNING'', result_state = None, state_message = []\<rparr>
       = Inr False
   \<and> ''QUEUED'' \<notin> set RUN_LIFE_CYCLE_STATES
   \<and> (\<exists>e. is_terminal \<lparr>life_cycle_state = ''QUEUED'', result_state = None,
                         state_message = []\<rparr> = Inl e)"
  using
    is_terminal_recognised_or_raises
      [of "\<lparr>life_cycle_state = ''SKIPPED'', result_state = None, state_message = []\<rparr>"]
    is_terminal_recognised_or_raises
      [of "\<lparr>life_cycle_state = ''RUNNING'', result_state = None, state_message = []\<rparr>"]
    is_terminal_recognised_or_raises
      [of "\<lparr>life_cycle_state = ''QUEUED'', result_state = None, state_message = []\<rparr>"]
  by (simp add: RUN_LIFE_CYCLE_STATES_def)

text \<open>
  C9. \<^verbatim>\<open>is_successful\<close> never raises: it returns true when the result state is the
  string SUCCESS and false for every other result state, an absent one included.
\<close>

theorem is_successful_iff_SUCCESS:
  "is_successful s = Inr (result_state s = Some ''SUCCESS'')
   \<and> is_successful (s\<lparr>result_state := None\<rparr>) = Inr False"
  by (simp add: is_successful_def)

text \<open>
  C10. The constructor of a run state checks nothing: for every three field values it
  returns the run state holding them; on that run state \<^verbatim>\<open>is_successful\<close> and the
  comparison with any other run state return a value; only \<^verbatim>\<open>is_terminal\<close> raises, and
  it does so exactly when the life cycle state is not a recognised one.
\<close>

theorem RunState_unvalidated:
  "\<exists>s. RunState_init lcs rs msg = Inr s
       \<and> life_cycle_state s = lcs \<and> result_state s = rs \<and> state_message s = msg
       \<and> (\<exists>b. is_successful s = Inr b)
       \<and> (\<forall>other. \<exists>b. RunState_eq s (RunStateObject other) = Inr (Bool b))
       \<and> ((\<exists>e. is_terminal s = Inl e) \<longleftrightarrow> lcs \<notin> set RUN_LIFE_CYCLE_STATES)"
  by (simp add: RunState_init_def is_successful_def RunState_eq_def is_terminal_def)

theorem RunState_unvalidated_witness:
  "\<exists>s. RunState_init ''QUEUED'' None ''waiting'' = Inr s
       \<and> is_successful s = Inr False
       \<and> RunState_eq s (RunStateObject s) = Inr (Bool True)
       \<and> ''QUEUED'' \<notin> set RUN_LIFE_CYCLE_STATES
       \<and> is_terminal s = Inl (AirflowException (UnexpectedLifeCycleState ''QUEUED''))"
  using RunState_unvalidated [of "''QUEUED''" None "''waiting''"]
  by (simp add: RunState_init_def is_successful_def RunState_eq_def is_terminal_def
      RUN_LIFE_CYCLE_STATES_def)

section \<open>Construction of the hook\<close>

text \<open>
  C6. Constructing a hook with a retry limit below 1 raises an error at once and yields no
  hook; with a retry limit of 1 or more it yields a hook with that retry limit.
\<close>

theorem init_checks_retry_limit:
  "(limit < 1 \<longrightarrow>
      DatabricksHook_init conn_id secs limit delay
        = Inl (ValueError ''Retry limit must be greater than equal to 1''))
   \<and> (1 \<le> limit \<longrightarrow>
        (\<exists>h. DatabricksHook_init conn_id secs limit delay = Inr h \<and> retry_limit h = limit
             \<and> retry_delay h = delay \<and> databricks_conn h = None))"
  by (simp add: DatabricksHook_init_def)

theorem init_checks_retry_limit_witness:
  "(0::int) < 1
   \<and> DatabricksHook_init default_conn_name 180 0 1
       = Inl (ValueError ''Retry limit must be greater than equal to 1'')
   \<and> (1::int) \<le> 3
   \<and> (\<exists>h. DatabricksHook_default = Inr h \<and> retry_limit h = 3)"
  using init_checks_retry_limit [of 0 default_conn_name 180 1]
    init_checks_retry_limit [of 3 default_conn_name 180 1]
  by (simp add: DatabricksHook_init_def DatabricksHook_default_def)

section \<open>Host normalisation\<close>

text \<open>Neither the network location nor a host name taken from it holds a slash.\<close>

lemma lower_char_slash: "lower_char c = CHR ''/'' \<Longrightarrow> c = CHR ''/''"
  unfolding lower_char_def
  by (auto split: option.splits if_splits)

lemma splitnetloc_no_slash: "CHR ''/'' \<notin> set (splitnetloc u)"
  unfolding splitnetloc_def by (auto dest: set_takeWhileD)

lemma hostinfo_hostname_subset: "set (hostinfo_hostname n) \<subseteq> set n"
proof -
  let ?hi = "rev (takeWhile (\<lambda>c. c \<noteq> CHR ''@'') (rev n))"
  have hi: "set ?hi \<subseteq> set n"
    using set_takeWhileD [of _ "\<lambda>c. c \<noteq> CHR ''@''" "rev n"] by auto
  have a: "set (takeWhile (\<lambda>c. c \<noteq> CHR '':'') ?hi) \<subseteq> set ?hi"
    by (auto dest: set_takeWhileD)
  have b: "set (takeWhile (\<lambda>c. c \<noteq> CHR '']'') (drop 1 (dropWhile (\<lambda>c. c \<noteq> CHR ''['') ?hi)))
            \<subseteq> set ?hi"
    by (auto dest!: set_takeWhileD in_set_dropD set_dropWhileD)
  show ?thesis
    unfolding hostinfo_hostname_def Let_def using hi a b by (auto split: if_splits)
qed

lemma hostname_no_slash:
  assumes "hostname n = Some x" and "CHR ''/'' \<notin> set n"
  shows "CHR ''/'' \<notin> set x \<and> x \<noteq> []"
proof -
  let ?h = "hostinfo_hostname n"
  from assms(1) have ne: "?h \<noteq> []"
    and x: "x = map lower_char (takeWhile (\<lambda>c. c \<noteq> CHR ''%'') ?h) @ dropWhile (\<lambda>c. c \<noteq> CHR ''%'') ?h"
    by (auto simp: hostname_def Let_def split: if_splits)
  have h: "CHR ''/'' \<notin> set ?h" using hostinfo_hostname_subset assms(2) by blast
  have 1: "CHR ''/'' \<notin> set (map lower_char (takeWhile (\<lambda>c. c \<noteq> CHR ''%'') ?h))"
  proof
    assume "CHR ''/'' \<in> set (map lower_char (takeWhile (\<lambda>c. c \<noteq> CHR ''%'') ?h))"
    then obtain c where c: "c \<in> set (takeWhile (\<lambda>c. c \<noteq> CHR ''%'') ?h)"
      and l: "lower_char c = CHR ''/''" by auto
    from l have "c = CHR ''/''" by (rule lower_char_slash)
    with c h show False by (auto dest: set_takeWhileD)
  qed
  have 2: "CHR ''/'' \<notin> set (dropWhile (\<lambda>c. c \<noteq> CHR ''%'') ?h)"
    using h by (auto dest: set_dropWhileD)
  have 3: "x \<noteq> []"
  proof
    assume "x = []"
    with x have "takeWhile (\<lambda>c. c \<noteq> CHR ''%'') ?h @ dropWhile (\<lambda>c. c \<noteq> CHR ''%'') ?h = []"
      by simp
    with ne show False by simp
  qed
  from 1 2 3 x show ?thesis by simp
qed

lemma strip_scheme_subset: "set (strip_scheme u) \<subseteq> set u"
  unfolding strip_scheme_def Let_def by (auto dest: in_set_dropD)

lemma no_slash_no_netloc:
  assumes "CHR ''/'' \<notin> set h"
  shows "urlsplit_netloc h = Inr []"
proof -
  have "CHR ''/'' \<notin> set (strip_scheme h)" using assms strip_scheme_subset by blast
  then have "take 2 (strip_scheme h) \<noteq> ''//''"
    by (metis in_set_takeD list.set_intros(1))
  then show ?thesis by (simp add: urlsplit_netloc_def Let_def)
qed

lemma parse_host_no_slash: "CHR ''/'' \<notin> set h \<Longrightarrow> parse_host h = Inr h"
  by (simp add: parse_host_def urlparse_hostname_def no_slash_no_netloc hostname_def
      hostinfo_hostname_def)

lemma urlsplit_netloc_no_slash: "urlsplit_netloc h = Inr n \<Longrightarrow> CHR ''/'' \<notin> set n"
  by (auto simp: urlsplit_netloc_def Let_def splitnetloc_no_slash split: if_splits)

lemma parse_host_cases:
  "parse_host h = Inr h' \<Longrightarrow> h' = h \<or> CHR ''/'' \<notin> set h'"
  by (auto simp: parse_host_def urlparse_hostname_def split: sum.splits option.splits if_splits
      dest: urlsplit_netloc_no_slash hostname_no_slash)

lemma parse_host_fixed: "parse_host h = Inr h' \<Longrightarrow> parse_host h' = Inr h'"
  using parse_host_cases [of h h'] parse_host_no_slash [of h'] by auto

lemma parse_host_raises: "parse_host h = Inl e \<Longrightarrow> e = ValueError ''Invalid IPv6 URL''"
  by (auto simp: parse_host_def urlparse_hostname_def urlsplit_netloc_def Let_def
      split: sum.splits option.splits if_splits)

lemma example_with_scheme:
  "urlparse_hostname ''https://xx.cloud.databricks.com'' = Inr (Some ''xx.cloud.databricks.com'')"
  by (simp add: urlparse_hostname_def urlsplit_netloc_def strip_scheme_def str_find_def
      scheme_chars_def splitnetloc_def hostname_def hostinfo_hostname_def lower_char_def)

lemma example_bare:
  "urlparse_hostname ''xx.cloud.databricks.com'' = Inr None"
  by (simp add: urlparse_hostname_def urlsplit_netloc_def strip_scheme_def str_find_def
      scheme_chars_def splitnetloc_def hostname_def hostinfo_hostname_def lower_char_def)

lemma example_bracket:
  "urlparse_hostname ''https://[xx.cloud.databricks.com''
     = Inl (ValueError ''Invalid IPv6 URL'')"
  by (simp add: urlparse_hostname_def urlsplit_netloc_def strip_scheme_def str_find_def
      scheme_chars_def splitnetloc_def)

text \<open>
  C8, as the claim states it, fails: on a host whose network location opens a bracket and
  never closes it, \<^verbatim>\<open>urlparse\<close> raises \<^verbatim>\<open>ValueError\<close>, so \<^verbatim>\<open>_parse_host\<close> raises too
  and does not return its input.
\<close>

theorem parse_host_unbalanced_bracket_counterexample:
  "parse_host ''https://[xx.cloud.databricks.com'' = Inl (ValueError ''Invalid IPv6 URL'')
   \<and> parse_host ''https://[xx.cloud.databricks.com'' \<noteq> Inr ''https://[xx.cloud.databricks.com''"
  by (simp add: parse_host_def example_bracket)

text \<open>
  C8, amended. \<^verbatim>\<open>_parse_host\<close> maps \<^verbatim>\<open>https://xx.cloud.databricks.com\<close> and
  \<^verbatim>\<open>xx.cloud.databricks.com\<close> to \<^verbatim>\<open>xx.cloud.databricks.com\<close>. Whenever \<^verbatim>\<open>urlparse\<close>
  returns, it returns the host name if the parse has one and its input otherwise; and
  whenever it returns a host, it maps that host to itself.
\<close>

theorem parse_host_normalises:
  "parse_host ''https://xx.cloud.databricks.com'' = Inr ''xx.cloud.databricks.com''
   \<and> parse_host ''xx.cloud.databricks.com'' = Inr ''xx.cloud.databricks.com''
   \<and> (\<forall>x. urlparse_hostname h = Inr (Some x) \<longrightarrow> parse_host h = Inr x)
   \<and> (urlparse_hostname h = Inr None \<longrightarrow> parse_host h = Inr h)
   \<and> (\<forall>h'. parse_host h = Inr h' \<longrightarrow> parse_host h' = Inr h')"
proof -
  have 1: "parse_host ''https://xx.cloud.databricks.com'' = Inr ''xx.cloud.databricks.com''"
    by (simp add: parse_host_def example_with_scheme)
  have 2: "parse_host ''xx.cloud.databricks.com'' = Inr ''xx.cloud.databricks.com''"
    by (simp add: parse_host_def example_bare)
  have 3: "parse_host h = Inr x" if "urlparse_hostname h = Inr (Some x)" for x
  proof -
    from that have "x \<noteq> []"
      by (auto simp: urlparse_hostname_def split: sum.splits
          dest: hostname_no_slash urlsplit_netloc_no_slash)
    with that show ?thesis by (simp add: parse_host_def)
  qed
  have 4: "parse_host h = Inr h" if "urlparse_hostname h = Inr None"
    using that by (simp add: parse_host_def)
  from 1 2 3 4 parse_host_fixed show ?thesis by blast
qed

theorem parse_host_normalises_witness:
  "urlparse_hostname ''https://xx.cloud.databricks.com'' = Inr (Some ''xx.cloud.databricks.com'')
   \<and> parse_host ''https://xx.cloud.databricks.com'' = Inr ''xx.cloud.databricks.com''
   \<and> urlparse_hostname ''xx.cloud.databricks.com'' = Inr None
   \<and> parse_host ''xx.cloud.databricks.com'' = Inr ''xx.cloud.databricks.com''"
  using parse_host_normalises [of "''https://xx.cloud.databricks.com''"]
    parse_host_normalises [of "''xx.cloud.databricks.com''"]
    example_with_scheme example_bare
  by simp

section \<open>The API call\<close>

subsection \<open>What happens before the first attempt\<close>

lemma prepare_call_basic:
  "prepare_call (example_hook limit delay) (example_world basic_connection reply) RUN_NOW_ENDPOINT
     (JDict [(''job_id'', JInt 7)])
   = (Inr (example_request (BasicAuth (Some ''user'') (Some ''secret''))),
      (example_hook limit delay)\<lparr>databricks_conn := Some basic_connection\<rparr>,
      [LogInfo ''Using basic auth. ''])"
  by (simp add: prepare_call_def example_hook_def example_world_def basic_connection_def
      RUN_NOW_ENDPOINT_def select_auth_def build_request_def parse_host_def example_with_scheme
      example_request_def USER_AGENT_HEADER_def)

lemma prepare_call_token:
  "prepare_call (example_hook limit delay) (example_world token_connection reply) RUN_NOW_ENDPOINT
     (JDict [(''job_id'', JInt 7)])
   = (Inr (example_request (TokenAuth ''dapi123'')),
      (example_hook limit delay)\<lparr>databricks_conn := Some token_connection\<rparr>,
      [LogInfo ''Using token auth. ''])"
  by (simp add: prepare_call_def example_hook_def example_world_def token_connection_def
      RUN_NOW_ENDPOINT_def select_auth_def build_request_def parse_host_def example_bare
      example_request_def USER_AGENT_HEADER_def)

lemma select_auth_trace:
  "select_auth conn = (r, tr) \<Longrightarrow> sent_requests tr = [] \<and> sleeps tr = []"
  by (auto simp: select_auth_def sent_requests_def sleeps_def split: option.splits sum.splits)

lemma prepare_call_trace:
  "prepare_call self world endpoint_info payload = (r, self', tr)
   \<Longrightarrow> sent_requests tr = [] \<and> sleeps tr = []"
  by (auto simp: prepare_call_def sent_requests_def sleeps_def
      split: prod.splits sum.splits dest: select_auth_trace)

lemma prepare_call_hook:
  "prepare_call self world endpoint_info payload = (r, self', tr)
   \<Longrightarrow> retry_limit self' = retry_limit self \<and> retry_delay self' = retry_delay self"
  by (auto simp: prepare_call_def split: prod.splits sum.splits)

lemma sent_requests_append [simp]: "sent_requests (xs @ ys) = sent_requests xs @ sent_requests ys"
  by (simp add: sent_requests_def)

lemma sleeps_append [simp]: "sleeps (xs @ ys) = sleeps xs @ sleeps ys"
  by (simp add: sleeps_def)

lemma sent_requests_simps [simp]:
  "sent_requests [] = []" "sent_requests (x # xs) = sent x @ sent_requests xs"
  by (simp_all add: sent_requests_def)

lemma sleeps_simps [simp]:
  "sleeps [] = []" "sleeps (x # xs) = slept x @ sleeps xs"
  by (simp_all add: sleeps_def)

lemma retryable_failureD:
  "retryable_failure a \<Longrightarrow> \<exists>e. attempt_once a = Inl (RequestError e) \<and> retryable_error e"
  by (auto simp: retryable_failure_def split: sum.splits py_exception.splits)

lemma request_loop_retry:
  assumes "attempt_once (reply a) = Inl (RequestError e)" "retryable_error e"
  shows "request_loop self reply req a tr =
     (if a = retry_limit self
      then Some (Inl (AirflowException (RetriesExhausted (retry_limit self))),
                 tr @ [Sent req, LogError a e])
      else (case sleep (retry_delay self) of
              Inl y \<Rightarrow> Some (Inl y, tr @ [Sent req, LogError a e])
            | Inr _ \<Rightarrow> request_loop self reply req (a + 1)
                         (tr @ [Sent req, LogError a e, Slept (retry_delay self)])))"
  using assms by (subst request_loop.simps) simp

lemma request_loop_exhausts:
  assumes "0 \<le> retry_delay self"
    and "\<forall>n. a \<le> n \<and> n \<le> retry_limit self \<longrightarrow> retryable_failure (reply n)"
    and "a \<le> retry_limit self"
    and "k = nat (retry_limit self - a)"
  shows "\<exists>tr'. request_loop self reply req a tr
            = Some (Inl (AirflowException (RetriesExhausted (retry_limit self))), tr @ tr')
          \<and> sent_requests tr' = replicate (Suc k) req
          \<and> sleeps tr' = replicate k (retry_delay self)"
  using assms
proof (induction k arbitrary: a tr)
  case 0
  then have a: "a = retry_limit self" by simp
  from 0 obtain e where e: "attempt_once (reply a) = Inl (RequestError e)" "retryable_error e"
    using retryable_failureD by blast
  have "request_loop self reply req a tr
          = Some (Inl (AirflowException (RetriesExhausted (retry_limit self))),
                  tr @ [Sent req, LogError a e])"
    using request_loop_retry [where reply = reply and a = a, OF e, of self req tr] a by simp
  then show ?case
    by (intro exI [of _ "[Sent req, LogError a e]"]) simp
next
  case (Suc k)
  then have a: "a \<noteq> retry_limit self" "a + 1 \<le> retry_limit self"
    "k = nat (retry_limit self - (a + 1))" by auto
  from Suc.prems obtain e where e: "attempt_once (reply a) = Inl (RequestError e)" "retryable_error e"
    using retryable_failureD by (metis order_refl)
  let ?tr = "tr @ [Sent req, LogError a e, Slept (retry_delay self)]"
  have "\<forall>n. a + 1 \<le> n \<and> n \<le> retry_limit self \<longrightarrow> retryable_failure (reply n)"
    using Suc.prems(2) by auto
  from Suc.IH [OF Suc.prems(1) this a(2) a(3), of ?tr]
  obtain tr' where tr': "request_loop self reply req (a + 1) ?tr
            = Some (Inl (AirflowException (RetriesExhausted (retry_limit self))), ?tr @ tr')"
    "sent_requests tr' = replicate (Suc k) req" "sleeps tr' = replicate k (retry_delay self)"
    by blast
  have step: "request_loop self reply req a tr = request_loop self reply req (a + 1) ?tr"
    using request_loop_retry [where reply = reply and a = a, OF e, of self req tr]
      a(1) Suc.prems(1) by (simp add: sleep_def)
  show ?case
    by (intro exI [of _ "[Sent req, LogError a e, Slept (retry_delay self)] @ tr'"])
       (simp add: step tr')
qed

lemma do_api_call_loop:
  "prepare_call self world endpoint_info payload = (Inr req, self', tr0)
   \<Longrightarrow> do_api_call self world endpoint_info payload
       = map_option (\<lambda>(res, tr'). (res, self', tr'))
           (request_loop self' (transport world req) req 1 tr0)"
  by (simp add: do_api_call_def)

subsection \<open>Retries\<close>

text \<open>
  C2. Take a call that reaches its first attempt, with a retry limit of at least 1 and a
  delay that is not negative (as the data model of the retry context has it). If every
  attempt up to the retry limit fails with a retryable error, the call makes exactly
  \<^verbatim>\<open>retry_limit\<close> attempts, sleeps between them, and raises the error of exhausted
  retries.
\<close>

theorem retries_exhausted:
  assumes "prepare_call self world endpoint_info payload = (Inr req, self', tr0)"
    and "1 \<le> retry_limit self"
    and "0 \<le> retry_delay self"
    and "\<forall>n. 1 \<le> n \<and> n \<le> retry_limit self \<longrightarrow> retryable_failure (transport world req n)"
  shows "\<exists>tr. do_api_call self world endpoint_info payload
           = Some (Inl (AirflowException (RetriesExhausted (retry_limit self))), self', tr)
         \<and> sent_requests tr = replicate (nat (retry_limit self)) req
         \<and> sleeps tr = replicate (nat (retry_limit self) - 1) (retry_delay self)"
proof -
  from prepare_call_hook [OF assms(1)]
  have h: "retry_limit self' = retry_limit self" "retry_delay self' = retry_delay self" by auto
  from prepare_call_trace [OF assms(1)]
  have t0: "sent_requests tr0 = []" "sleeps tr0 = []" by auto
  have n: "Suc (nat (retry_limit self - 1)) = nat (retry_limit self)"
    using assms(2) by auto
  have "\<exists>tr'. request_loop self' (transport world req) req 1 tr0
            = Some (Inl (AirflowException (RetriesExhausted (retry_limit self'))), tr0 @ tr')
          \<and> sent_requests tr' = replicate (Suc (nat (retry_limit self' - 1))) req
          \<and> sleeps tr' = replicate (nat (retry_limit self' - 1)) (retry_delay self')"
    by (rule request_loop_exhausts) (use assms h in auto)
  then obtain tr' where tr': "request_loop self' (transport world req) req 1 tr0
            = Some (Inl (AirflowException (RetriesExhausted (retry_limit self))), tr0 @ tr')"
    "sent_requests tr' = replicate (nat (retry_limit self)) req"
    "sleeps tr' = replicate (nat (retry_limit self - 1)) (retry_delay self)"
    unfolding h n by blast
  have m: "nat (retry_limit self - 1) = nat (retry_limit self) - 1"
    by auto
  show ?thesis
    by (intro exI [of _ "tr0 @ tr'"]) (simp add: do_api_call_loop [OF assms(1)] tr' t0 m)
qed

text \<open>A transport that always answers 500 fails retryably at every attempt.\<close>

lemma retryable_500: "retryable_failure (status_reply 500)"
  by (simp add: retryable_failure_def status_reply_def attempt_once_def raise_for_status_def
      retryable_error_def)

theorem retries_exhausted_witness:
  "(1::int) \<le> 2 \<and> (0::real) \<le> 1
   \<and> retryable_failure (status_reply 500)
   \<and> (\<exists>tr. do_api_call (example_hook 2 1) (example_world basic_connection (\<lambda>n. status_reply 500))
              RUN_NOW_ENDPOINT (JDict [(''job_id'', JInt 7)])
            = Some (Inl (AirflowException (RetriesExhausted 2)),
                    (example_hook 2 1)\<lparr>databricks_conn := Some basic_connection\<rparr>, tr)
          \<and> sent_requests tr = [example_request (BasicAuth (Some ''user'') (Some ''secret'')),
                                 example_request (BasicAuth (Some ''user'') (Some ''secret''))]
          \<and> sleeps tr = [1])"
proof -
  let ?w = "example_world basic_connection (\<lambda>n. status_reply 500)"
  have l: "retry_limit (example_hook 2 1) = 2" and d: "retry_delay (example_hook 2 1) = 1"
    by (simp_all add: example_hook_def)
  have r: "\<forall>n. 1 \<le> n \<and> n \<le> retry_limit (example_hook 2 1) \<longrightarrow>
             retryable_failure (transport ?w
               (example_request (BasicAuth (Some ''user'') (Some ''secret''))) n)"
    by (simp add: example_world_def retryable_500)
  from retries_exhausted [OF prepare_call_basic _ _ r] l d retryable_500
  show ?thesis by (simp add: numeral_2_eq_2)
qed

subsection \<open>One turn of the loop\<close>

lemma request_loop_success:
  "attempt_once (reply a) = Inr v
   \<Longrightarrow> request_loop self reply req a tr = Some (Inr v, tr @ [Sent req])"
  by (subst request_loop.simps) simp

lemma request_loop_fatal:
  "attempt_once (reply a) = Inl (RequestError e) \<Longrightarrow> \<not> retryable_error e
   \<Longrightarrow> request_loop self reply req a tr = Some (Inl (fatal_error e), tr @ [Sent req])"
  by (subst request_loop.simps) simp

lemma request_loop_sleeps:
  "attempt_once (reply a) = Inl (RequestError e) \<Longrightarrow> retryable_error e
   \<Longrightarrow> a \<noteq> retry_limit self \<Longrightarrow> 0 \<le> retry_delay self
   \<Longrightarrow> request_loop self reply req a tr
       = request_loop self reply req (a + 1)
           (tr @ [Sent req, LogError a e, Slept (retry_delay self)])"
  by (subst request_loop.simps) (simp add: sleep_def)

lemma attempt_once_5xx:
  "500 \<le> status_code r \<Longrightarrow> status_code r < 600
   \<Longrightarrow> attempt_once (Responds r b) = Inl (RequestError (RequestException HTTPError (Some r)))
       \<and> retryable_error (RequestException HTTPError (Some r))"
  by (simp add: attempt_once_def raise_for_status_def retryable_error_def)

lemma attempt_once_4xx:
  "400 \<le> status_code r \<Longrightarrow> status_code r < 500
   \<Longrightarrow> attempt_once (Responds r b) = Inl (RequestError (RequestException HTTPError (Some r)))
       \<and> \<not> retryable_error (RequestException HTTPError (Some r))"
  by (simp add: attempt_once_def raise_for_status_def retryable_error_def)

lemma attempt_once_2xx:
  "200 \<le> status_code r \<Longrightarrow> status_code r < 300 \<Longrightarrow> attempt_once (Responds r b) = b"
  by (simp add: attempt_once_def raise_for_status_def)

lemma first_attempt_succeeds:
  assumes "prepare_call self world endpoint_info payload = (Inr req, self', tr0)"
    and "attempt_once (transport world req 1) = Inr v"
  shows "do_api_call self world endpoint_info payload = Some (Inr v, self', tr0 @ [Sent req])"
  using request_loop_success [where reply = "transport world req" and a = 1, OF assms(2)]
  by (simp add: do_api_call_loop [OF assms(1)])

lemma run_id_reply_ok: "attempt_once run_id_reply = Inr (JDict [(''run_id'', JInt 1)])"
  by (simp add: run_id_reply_def attempt_once_def raise_for_status_def)

text \<open>
  C3. With a retry limit of 3 and a delay that is not negative, a call whose first two
  attempts are answered with status 500 and whose third attempt is answered with a 2xx
  status and a body that decodes to \<open>v\<close> returns \<open>v\<close>. It sends three requests and
  sleeps twice, each time for \<^verbatim>\<open>retry_delay\<close>: once after each failed attempt and not
  after the third.
\<close>

theorem succeeds_on_third_attempt:
  assumes "prepare_call self world endpoint_info payload = (Inr req, self', tr0)"
    and "retry_limit self = 3"
    and "0 \<le> retry_delay self"
    and "transport world req 1 = Responds r1 b1" and "status_code r1 = 500"
    and "transport world req 2 = Responds r2 b2" and "status_code r2 = 500"
    and "transport world req 3 = Responds r3 (Inr v)"
    and "200 \<le> status_code r3" and "status_code r3 < 300"
  shows "do_api_call self world endpoint_info payload
           = Some (Inr v, self',
                   tr0 @ [Sent req, LogError 1 (RequestException HTTPError (Some r1)),
                          Slept (retry_delay self),
                          Sent req, LogError 2 (RequestException HTTPError (Some r2)),
                          Slept (retry_delay self),
                          Sent req])
         \<and> sleeps (tr0 @ [Sent req, LogError 1 (RequestException HTTPError (Some r1)),
                          Slept (retry_delay self),
                          Sent req, LogError 2 (RequestException HTTPError (Some r2)),
                          Slept (retry_delay self),
                          Sent req]) = [retry_delay self, retry_delay self]"
proof -
  let ?reply = "transport world req"
  let ?e1 = "RequestException HTTPError (Some r1)"
  let ?e2 = "RequestException HTTPError (Some r2)"
  from prepare_call_hook [OF assms(1)] assms(2,3)
  have h: "retry_limit self' = 3" "retry_delay self' = retry_delay self" "0 \<le> retry_delay self'"
    by auto
  have a1: "attempt_once (?reply 1) = Inl (RequestError ?e1)" "retryable_error ?e1"
    using attempt_once_5xx [of r1 b1] assms(4,5) by auto
  have a2: "attempt_once (?reply 2) = Inl (RequestError ?e2)" "retryable_error ?e2"
    using attempt_once_5xx [of r2 b2] assms(6,7) by auto
  have a3: "attempt_once (?reply 3) = Inr v"
    using attempt_once_2xx [of r3 "Inr v"] assms(8,9,10) by simp
  have s1: "request_loop self' ?reply req 1 tr0
      = request_loop self' ?reply req 2 (tr0 @ [Sent req, LogError 1 ?e1, Slept (retry_delay self)])"
    using request_loop_sleeps [where reply = ?reply and a = 1, OF a1, of self' req tr0] h by simp
  have s2: "request_loop self' ?reply req 2 (tr0 @ [Sent req, LogError 1 ?e1, Slept (retry_delay self)])
      = request_loop self' ?reply req 3
          (tr0 @ [Sent req, LogError 1 ?e1, Slept (retry_delay self),
                  Sent req, LogError 2 ?e2, Slept (retry_delay self)])"
    using request_loop_sleeps [where reply = ?reply and a = 2, OF a2, of self' req
        "tr0 @ [Sent req, LogError 1 ?e1, Slept (retry_delay self)]"] h by simp
  have s3: "request_loop self' ?reply req 3
          (tr0 @ [Sent req, LogError 1 ?e1, Slept (retry_delay self),
                  Sent req, LogError 2 ?e2, Slept (retry_delay self)])
      = Some (Inr v, tr0 @ [Sent req, LogError 1 ?e1, Slept (retry_delay self),
                  Sent req, LogError 2 ?e2, Slept (retry_delay self), Sent req])"
    using request_loop_success [where reply = ?reply and a = 3, OF a3] by simp
  from prepare_call_trace [OF assms(1)] have t0: "sleeps tr0 = []" by simp
  show ?thesis
    by (simp add: do_api_call_loop [OF assms(1)] s1 s2 s3 t0)
qed

theorem succeeds_on_third_attempt_witness:
  "retry_limit (example_hook 3 1) = 3 \<and> 0 \<le> retry_delay (example_hook 3 1)
   \<and> do_api_call (example_hook 3 1)
        (example_world basic_connection (\<lambda>n. if n < 3 then status_reply 500 else run_id_reply))
        RUN_NOW_ENDPOINT (JDict [(''job_id'', JInt 7)])
     = Some (Inr (JDict [(''run_id'', JInt 1)]),
             (example_hook 3 1)\<lparr>databricks_conn := Some basic_connection\<rparr>,
             [LogInfo ''Using basic auth. '',
              Sent (example_request (BasicAuth (Some ''user'') (Some ''secret''))),
              LogError 1 (RequestException HTTPError (Some \<lparr>status_code = 500, content = ''{}''\<rparr>)),
              Slept 1,
              Sent (example_request (BasicAuth (Some ''user'') (Some ''secret''))),
              LogError 2 (RequestException HTTPError (Some \<lparr>status_code = 500, content = ''{}''\<rparr>)),
              Slept 1,
              Sent (example_request (BasicAuth (Some ''user'') (Some ''secret'')))])"
proof -
  let ?reply = "\<lambda>n::int. if n < 3 then status_reply 500 else run_id_reply"
  let ?w = "example_world basic_connection ?reply"
  let ?req = "example_request (BasicAuth (Some ''user'') (Some ''secret''))"
  let ?r = "\<lparr>status_code = 500, content = ''{}''\<rparr>"
  have l: "retry_limit (example_hook 3 1) = 3" and d: "0 \<le> retry_delay (example_hook 3 1)"
    and d1: "retry_delay (example_hook 3 1) = 1"
    by (simp_all add: example_hook_def)
  have t1: "transport ?w ?req 1 = Responds ?r (Inr (JDict []))"
    and t2: "transport ?w ?req 2 = Responds ?r (Inr (JDict []))"
    and t3: "transport ?w ?req 3
               = Responds \<lparr>status_code = 200, content = ''{run_id: 1}''\<rparr>
                   (Inr (JDict [(''run_id'', JInt 1)]))"
    by (simp_all add: example_world_def status_reply_def run_id_reply_def)
  from succeeds_on_third_attempt [OF prepare_call_basic l d t1 _ t2 _ t3] l d d1
  show ?thesis by simp
qed

text \<open>
  C4. For every retry limit and every delay, a call whose first attempt is answered with
  status 404 raises the error that carries the body and the status 404 at once: it has
  sent one request and has not slept.
\<close>

theorem not_found_is_fatal:
  assumes "prepare_call self world endpoint_info payload = (Inr req, self', tr0)"
    and "transport world req 1 = Responds r b"
    and "status_code r = 404"
  shows "do_api_call self world endpoint_info payload
           = Some (Inl (AirflowException (ResponseAndStatusCode (content r) 404)), self',
                   tr0 @ [Sent req])
         \<and> sent_requests (tr0 @ [Sent req]) = [req]
         \<and> sleeps (tr0 @ [Sent req]) = []"
proof -
  let ?e = "RequestException HTTPError (Some r)"
  have a: "attempt_once (transport world req 1) = Inl (RequestError ?e)" "\<not> retryable_error ?e"
    using attempt_once_4xx [of r b] assms(2,3) by auto
  have "request_loop self' (transport world req) req 1 tr0
          = Some (Inl (fatal_error ?e), tr0 @ [Sent req])"
    by (rule request_loop_fatal [where reply = "transport world req" and a = 1, OF a])
  moreover have "fatal_error ?e = AirflowException (ResponseAndStatusCode (content r) 404)"
    by (simp add: fatal_error_def assms(3))
  ultimately show ?thesis
    using prepare_call_trace [OF assms(1)] by (simp add: do_api_call_loop [OF assms(1)])
qed

theorem not_found_is_fatal_witness:
  "do_api_call (example_hook 3 1) (example_world basic_connection (\<lambda>n. status_reply 404))
     RUN_NOW_ENDPOINT (JDict [(''job_id'', JInt 7)])
   = Some (Inl (AirflowException (ResponseAndStatusCode ''{}'' 404)),
           (example_hook 3 1)\<lparr>databricks_conn := Some basic_connection\<rparr>,
           [LogInfo ''Using basic auth. '',
            Sent (example_request (BasicAuth (Some ''user'') (Some ''secret'')))])"
proof -
  let ?w = "example_world basic_connection (\<lambda>n. status_reply 404)"
  let ?req = "example_request (BasicAuth (Some ''user'') (Some ''secret''))"
  have t: "transport ?w ?req 1 = Responds \<lparr>status_code = 404, content = ''{}''\<rparr> (Inr (JDict []))"
    by (simp add: example_world_def status_reply_def)
  from not_found_is_fatal [OF prepare_call_basic t] show ?thesis by simp
qed

subsection \<open>The call ends\<close>

text \<open>
  With a retry limit of at least 1, which the constructor guarantees, a call always ends,
  with a value or with an exception.
\<close>

lemma request_loop_returns:
  assumes "a \<le> retry_limit self" and "k = nat (retry_limit self - a)"
  shows "\<exists>y. request_loop self reply req a tr = Some y"
  using assms
proof (induction k arbitrary: a tr)
  case 0
  then have a: "a = retry_limit self" by simp
  show ?case
    by (subst request_loop.simps) (simp add: a split: sum.splits py_exception.splits)
next
  case (Suc k)
  then have "a + 1 \<le> retry_limit self" "k = nat (retry_limit self - (a + 1))" by auto
  from Suc.IH [OF this]
  have ih: "\<exists>res tr''. request_loop self reply req (a + 1) tr' = Some (res, tr'')" for tr'
    by (metis surj_pair)
  show ?case
    by (subst request_loop.simps) (simp add: ih split: sum.splits py_exception.splits)
qed

lemma do_api_call_returns:
  assumes "1 \<le> retry_limit self"
  shows "\<exists>y. do_api_call self world endpoint_info payload = Some y"
proof -
  obtain q hook0 tr0 where p: "prepare_call self world endpoint_info payload = (q, hook0, tr0)"
    by (metis prod_cases3)
  show ?thesis
  proof (cases q)
    case (Inl e)
    with p show ?thesis by (simp add: do_api_call_def)
  next
    case (Inr req)
    with p have p': "prepare_call self world endpoint_info payload = (Inr req, hook0, tr0)"
      by simp
    from prepare_call_hook [OF p'] assms have "1 \<le> retry_limit hook0" by simp
    from request_loop_returns [OF this refl]
    obtain y where "request_loop hook0 (transport world req) req 1 tr0 = Some y" by blast
    then show ?thesis by (cases y) (simp add: do_api_call_loop [OF p'])
  qed
qed

subsection \<open>Authentication\<close>

text \<open>Every request of a call is the one that was built before the loop.\<close>

lemma request_loop_sends:
  "request_loop self reply req a tr = Some y
   \<Longrightarrow> set (sent_requests (snd y)) \<subseteq> insert req (set (sent_requests tr))"
proof (induction rule: request_loop.raw_induct [rotated 1, consumes 1, case_names step])
  case (step loop self reply req a tr y)
  from step(2) show ?case
    by (auto split: sum.splits py_exception.splits if_splits dest!: step(1))
qed

text \<open>Every call that ends has sent that request at least once.\<close>

lemma request_loop_sends_req:
  "request_loop self reply req a tr = Some y \<Longrightarrow> req \<in> set (sent_requests (snd y))"
proof (induction rule: request_loop.raw_induct [rotated 1, consumes 1, case_names step])
  case (step loop self reply req a tr y)
  from step(2) show ?case
    by (auto split: sum.splits py_exception.splits if_splits dest!: step(1))
qed

lemma prepare_call_auth:
  assumes "prepare_call self world endpoint_info payload = (Inr req, self', tr0)"
    and "get_connection world (databricks_conn_id self) = Inr conn"
  shows "auth req = (case extra_dejson conn ''token'' of
                       Some token \<Rightarrow> TokenAuth token
                     | None \<Rightarrow> BasicAuth (login conn) (password conn))"
  using assms
  by (auto simp: prepare_call_def select_auth_def build_request_def
      split: prod.splits sum.splits option.splits if_splits)

text \<open>
  C7. Take a call that reaches its first attempt, on a hook whose retry limit is at least
  1. The call ends, it has sent a request, and every request it has sent is the one built
  from the connection, which carries the credentials chosen from it: if the extra fields
  of the connection have a token, the \<^verbatim>\<open>_TokenAuth\<close> object of that token, which sets
  the header \<^verbatim>\<open>Authorization\<close> to \<^verbatim>\<open>Bearer\<close> and the token; otherwise the pair of the
  connection's login and password, the HTTP Basic credentials.
\<close>

theorem auth_selection:
  assumes "get_connection world (databricks_conn_id self) = Inr conn"
    and "prepare_call self world endpoint_info payload = (Inr req, self', tr0)"
    and "1 \<le> retry_limit self"
  shows "\<exists>res tr. do_api_call self world endpoint_info payload = Some (res, self', tr)
           \<and> set (sent_requests tr) = {req}
           \<and> (\<forall>token. extra_dejson conn ''token'' = Some token \<longrightarrow>
                  auth req = TokenAuth token
                  \<and> (\<forall>p. \<exists>p'. TokenAuth_call token p = Inr p'
                        \<and> prepared_headers p' ''Authorization'' = Some (''Bearer '' @ token)))
           \<and> (extra_dejson conn ''token'' = None \<longrightarrow>
                  auth req = BasicAuth (login conn) (password conn))"
proof -
  from prepare_call_hook [OF assms(2)] assms(3) have "1 \<le> retry_limit self'" by simp
  from request_loop_returns [OF this refl]
  obtain y where y: "request_loop self' (transport world req) req 1 tr0 = Some y" by blast
  have t0: "sent_requests tr0 = []" using prepare_call_trace [OF assms(2)] by simp
  have s: "set (sent_requests (snd y)) = {req}"
    using request_loop_sends [OF y] request_loop_sends_req [OF y] t0 by auto
  have c: "do_api_call self world endpoint_info payload = Some (fst y, self', snd y)"
    by (cases y) (simp add: do_api_call_loop [OF assms(2)] y)
  have a: "auth req = (case extra_dejson conn ''token'' of
                         Some token \<Rightarrow> TokenAuth token
                       | None \<Rightarrow> BasicAuth (login conn) (password conn))"
    by (rule prepare_call_auth [OF assms(2) assms(1)])
  have h: "\<exists>p'. TokenAuth_call token p = Inr p'
             \<and> prepared_headers p' ''Authorization'' = Some (''Bearer '' @ token)" for token p
    by (simp add: TokenAuth_call_def)
  from c s a h show ?thesis by (intro exI [of _ "fst y"] exI [of _ "snd y"]) simp
qed

theorem auth_selection_witness:
  "1 \<le> retry_limit (example_hook 3 1)
   \<and> extra_dejson token_connection ''token'' = Some ''dapi123''
   \<and> do_api_call (example_hook 3 1) (example_world token_connection (\<lambda>n. run_id_reply))
        RUN_NOW_ENDPOINT (JDict [(''job_id'', JInt 7)])
      = Some (Inr (JDict [(''run_id'', JInt 1)]),
              (example_hook 3 1)\<lparr>databricks_conn := Some token_connection\<rparr>,
              [LogInfo ''Using token auth. '', Sent (example_request (TokenAuth ''dapi123''))])
   \<and> auth (example_request (TokenAuth ''dapi123'')) = TokenAuth ''dapi123''
   \<and> (\<exists>p'. TokenAuth_call ''dapi123'' \<lparr>prepared_headers = Map.empty\<rparr> = Inr p'
           \<and> prepared_headers p' ''Authorization'' = Some ''Bearer dapi123'')
   \<and> extra_dejson basic_connection ''token'' = None
   \<and> do_api_call (example_hook 3 1) (example_world basic_connection (\<lambda>n. run_id_reply))
        RUN_NOW_ENDPOINT (JDict [(''job_id'', JInt 7)])
      = Some (Inr (JDict [(''run_id'', JInt 1)]),
              (example_hook 3 1)\<lparr>databricks_conn := Some basic_connection\<rparr>,
              [LogInfo ''Using basic auth. '',
               Sent (example_request (BasicAuth (Some ''user'') (Some ''secret'')))])
   \<and> auth (example_request (BasicAuth (Some ''user'') (Some ''secret'')))
       = BasicAuth (Some ''user'') (Some ''secret'')"
proof -
  let ?payload = "JDict [(''job_id'', JInt 7)]"
  let ?v = "JDict [(''run_id'', JInt 1)]"
  let ?wt = "example_world token_connection (\<lambda>n. run_id_reply)"
  let ?wb = "example_world basic_connection (\<lambda>n. run_id_reply)"
  let ?h = "example_hook 3 1"
  let ?rt = "example_request (TokenAuth ''dapi123'')"
  let ?rb = "example_request (BasicAuth (Some ''user'') (Some ''secret''))"
  have l: "1 \<le> retry_limit ?h" by (simp add: example_hook_def)
  have gt: "get_connection ?wt (databricks_conn_id ?h) = Inr token_connection"
    and gb: "get_connection ?wb (databricks_conn_id ?h) = Inr basic_connection"
    by (simp_all add: example_world_def example_hook_def)
  have at: "attempt_once (transport ?wt ?rt 1) = Inr ?v"
    and ab: "attempt_once (transport ?wb ?rb 1) = Inr ?v"
    by (simp_all add: example_world_def run_id_reply_ok)
  have ct: "do_api_call ?h ?wt RUN_NOW_ENDPOINT ?payload
              = Some (Inr ?v, ?h\<lparr>databricks_conn := Some token_connection\<rparr>,
                      [LogInfo ''Using token auth. ''] @ [Sent ?rt])"
    by (rule first_attempt_succeeds [OF prepare_call_token at])
  have cb: "do_api_call ?h ?wb RUN_NOW_ENDPOINT ?payload
              = Some (Inr ?v, ?h\<lparr>databricks_conn := Some basic_connection\<rparr>,
                      [LogInfo ''Using basic auth. ''] @ [Sent ?rb])"
    by (rule first_attempt_succeeds [OF prepare_call_basic ab])
  have et: "extra_dejson token_connection ''token'' = Some ''dapi123''"
    and eb: "extra_dejson basic_connection ''token'' = None"
    and lb: "login basic_connection = Some ''user''" "password basic_connection = Some ''secret''"
    by (simp_all add: token_connection_def basic_connection_def)
  from auth_selection [OF gt prepare_call_token l] auth_selection [OF gb prepare_call_basic l]
    l ct cb et eb lb
  show ?thesis by simp
qed

subsection \<open>Failures that are not retried\<close>

text \<open>
  A failure that is not retryable and carries a response ends the call with the
  \<^verbatim>\<open>AirflowException\<close> that holds the body and the status of that response.
\<close>

lemma fatal_with_response:
  assumes "prepare_call self world endpoint_info payload = (Inr req, self', tr0)"
    and "attempt_once (transport world req 1) = Inl (RequestError e)"
    and "\<not> retryable_error e"
    and "exc_response e = Some r"
  shows "do_api_call self world endpoint_info payload
           = Some (Inl (AirflowException (ResponseAndStatusCode (content r) (status_code r))),
                   self', tr0 @ [Sent req])"
  using request_loop_fatal [where reply = "transport world req" and a = 1, OF assms(2,3)]
  by (simp add: do_api_call_loop [OF assms(1)] fatal_error_def assms(4))

text \<open>
  C1. The claim covers a failure that carries no response. There the code does otherwise:
  a \<^verbatim>\<open>ChunkedEncodingError\<close> (the connection broke while the body was read), which
  has no response, is classified as not retryable, and the handler, reading
  \<^verbatim>\<open>e.response.content\<close>, raises \<^verbatim>\<open>AttributeError\<close> and no \<^verbatim>\<open>AirflowException\<close>.
\<close>

theorem no_response_raises_AttributeError:
  "\<not> retryable_error (RequestException ChunkedEncodingError None)
   \<and> do_api_call (example_hook 3 1)
        (example_world basic_connection
           (\<lambda>n. Raises (RequestError (RequestException ChunkedEncodingError None))))
        RUN_NOW_ENDPOINT (JDict [(''job_id'', JInt 7)])
     = Some (Inl (AttributeError ''NoneType'' ''content''),
             (example_hook 3 1)\<lparr>databricks_conn := Some basic_connection\<rparr>,
             [LogInfo ''Using basic auth. '',
              Sent (example_request (BasicAuth (Some ''user'') (Some ''secret'')))])"
proof -
  let ?e = "RequestException ChunkedEncodingError None"
  let ?reply = "\<lambda>n::int. Raises (RequestError ?e)"
  have n: "\<not> retryable_error ?e" by (simp add: retryable_error_def)
  have a: "attempt_once (?reply 1) = Inl (RequestError ?e)" by (simp add: attempt_once_def)
  have t: "transport (example_world basic_connection ?reply) = (\<lambda>req. ?reply)"
    by (simp add: example_world_def)
  from request_loop_fatal [where reply = ?reply and a = 1, OF a n] n show ?thesis
    by (simp add: do_api_call_loop [OF prepare_call_basic] t fatal_error_def)
qed

end
